theory Spec2Isabelle
  imports Complex_Main "HOL-Library.Word" "HOL-Library.Multiset" "HOL-Library.Monad_Syntax"
begin

section \<open>Data model of plugins/sources/systemd/systemd.go\<close>

text \<open>
  Go strings are byte sequences: \<open>string\<close>. An \<open>error\<close> value is represented by its
  message. A \<open>float64\<close> is represented by the real number it denotes; the conversions
  that round are written out below.
\<close>

type_synonym error = string
type_synonym float64 = real

text \<open>
  \<open>type unit struct { dbus.UnitStatus }\<close>. The program reads three fields of the
  embedded status; the remaining ones (Description, SubState, Followed, Path, JobId,
  JobType, JobPath) are never read and live in the record's extension slot.
\<close>

record unit_status =
  Name :: string
  LoadState :: string
  ActiveState :: string

text \<open>A tag map is a Go \<open>map[string]string\<close>; \<open>None\<close> is the nil map.\<close>

type_synonym tags = "(string \<times> string) list"

record MetricPoint =
  Metric :: string
  Value :: float64
  Timestamp :: int
  Source :: string
  Tags :: "tags option"

record DataBatch =
  BatchTimestamp :: int
  MetricPoints :: "MetricPoint list"

text \<open>
  \<open>filter.Filter\<close> and \<open>unitFilter\<close> are declared outside this file; the program only
  calls \<open>Match(metric, tags)\<close> and \<open>match(name)\<close> on them, so each is the predicate it
  computes, and \<open>None\<close> is the nil pointer / nil interface.
\<close>

record systemdMetricsSource =
  prefix :: string
  source :: string
  collectTaskMetrics :: bool
  collectStartTimeMetrics :: bool
  collectRestartMetrics :: bool
  unitsFilter :: "(string \<Rightarrow> bool) option"
  filters :: "(string \<Rightarrow> tags option \<Rightarrow> bool) option"

definition unitStatesName :: "string list" where
  "unitStatesName = [''active'', ''activating'', ''deactivating'', ''inactive'', ''failed'']"

section \<open>String helpers of the Go library\<close>

text \<open>
  \<open>strings.HasSuffix(s, suffix)\<close> is
  \<open>len(s) >= len(suffix) && s[len(s)-len(suffix):] == suffix\<close>.
\<close>

definition HasSuffix :: "string \<Rightarrow> string \<Rightarrow> bool" where
  "HasSuffix s suf \<longleftrightarrow> length suf \<le> length s \<and> drop (length s - length suf) s = suf"

text \<open>
  \<open>strings.Replace(s, old, new, -1)\<close>: every non-overlapping occurrence of \<open>old\<close>, found
  from the left, is replaced by \<open>new\<close>. For an empty \<open>old\<close> Go inserts \<open>new\<close> at every
  rune boundary; the model inserts at every byte boundary, which is the same on ASCII
  (the program only ever passes \<open>old = "_"\<close>).
\<close>

function ReplaceAll :: "string \<Rightarrow> string \<Rightarrow> string \<Rightarrow> string" where
  "ReplaceAll s old new =
     (if old = [] then new @ concat (map (\<lambda>c. c # new) s)
      else if s = [] then []
      else if take (length old) s = old
        then new @ ReplaceAll (drop (length old) s) old new
      else hd s # ReplaceAll (tl s) old new)"
  by pat_completeness auto
termination
  by (relation "measure (\<lambda>(s, old, new). length s)") auto

declare ReplaceAll.simps [simp del]

section \<open>Tags and metric points\<close>

text \<open>Assignment \<open>m[key] = val\<close> on a Go map kept as an association list.\<close>

fun map_assign :: "('k \<times> 'v) list \<Rightarrow> 'k \<Rightarrow> 'v \<Rightarrow> ('k \<times> 'v) list" where
  "map_assign [] k v = [(k, v)]"
| "map_assign ((k', v') # m) k v =
     (if k' = k then (k, v) # m else (k', v') # map_assign m k v)"

definition setTag :: "tags \<Rightarrow> string \<Rightarrow> string \<Rightarrow> tags" where
  "setTag tgs key val = (if val \<noteq> [] then map_assign tgs key val else tgs)"

definition setTags :: "tags \<Rightarrow> string \<Rightarrow> string \<Rightarrow> string \<Rightarrow> tags" where
  "setTags tgs name state service =
     setTag (setTag (setTag tgs ''name'' name) ''state_name'' state) ''type'' service"

definition metricPoint ::
  "systemdMetricsSource \<Rightarrow> string \<Rightarrow> float64 \<Rightarrow> int \<Rightarrow> tags option \<Rightarrow> MetricPoint" where
  "metricPoint src name val ts tgs =
     \<lparr> Metric = prefix src @ ReplaceAll name ''_'' ''.'',
       Value = val,
       Timestamp = ts,
       Source = source src,
       Tags = tgs \<rparr>"

section \<open>Floating point\<close>

text \<open>
  The values the program computes in \<open>float64\<close> are non-negative, far below the
  overflow threshold and never subnormal, so a \<open>float64\<close> operation is the exact result
  rounded to 53 significant bits, ties to even.

  \<open>round_half_even n d\<close> is the integer nearest to \<open>n / d\<close>, ties to even.
  \<open>float64_of_nat n\<close> is the conversion \<open>float64(n)\<close> of an unsigned integer (exact below
  \<open>2^53\<close>), as an integer. \<open>float64_div a b\<close> is the quotient \<open>a / b\<close> of two
  integer-valued floats.
\<close>

fun bit_length :: "nat \<Rightarrow> nat" where
  "bit_length n = (if n = 0 then 0 else Suc (bit_length (n div 2)))"

declare bit_length.simps [simp del]

definition round_half_even :: "nat \<Rightarrow> nat \<Rightarrow> nat" where
  "round_half_even n d =
     (let q = n div d; r = n mod d
      in if d < 2 * r \<or> (2 * r = d \<and> odd q) then q + 1 else q)"

definition float64_of_nat :: "nat \<Rightarrow> nat" where
  "float64_of_nat n = (let k = bit_length n - 53 in round_half_even n (2 ^ k) * 2 ^ k)"

definition float64_div :: "nat \<Rightarrow> nat \<Rightarrow> float64" where
  "float64_div a b =
     (if a = 0 then 0
      else
        let e0 = int (bit_length a) - int (bit_length b) - 53;
            num = (\<lambda>e. if 0 \<le> e then a else a * 2 ^ nat (- e));
            den = (\<lambda>e. if 0 \<le> e then b * 2 ^ nat e else b);
            e = (if 2 ^ 53 \<le> num e0 div den e0 then e0 + 1 else e0);
            m = round_half_even (num e) (den e)
        in if 0 \<le> e then real (m * 2 ^ nat e) else real m / 2 ^ nat (- e))"

text \<open>
  \<open>c += 1.0\<close> on a counter that started at \<open>0.0\<close>: the counter is an integer between
  \<open>0\<close> and \<open>2^53\<close>; the sum is exact below \<open>2^53\<close>, and \<open>2^53 + 1\<close> is a tie that rounds
  to the even neighbour \<open>2^53\<close>.
\<close>

definition float64_inc :: "float64 \<Rightarrow> float64" where
  "float64_inc c = (if c < 2 ^ 53 then c + 1 else c)"

section \<open>The D-Bus connection\<close>

text \<open>
  \<open>dbus.Conn\<close> is the go-systemd client. During one scrape it is the answers the service
  manager gives to the four calls the program makes. A property value is a D-Bus
  variant; the program reads it with a type assertion, which panics on any other type.
  A panic is \<open>None\<close>.
\<close>

datatype variant = VString string | VUint32 "32 word" | VUint64 "64 word" | VOther

record dbus_conn =
  ListUnits :: "error + unit_status list"
  GetUnitProperty :: "string \<Rightarrow> string \<Rightarrow> error + variant"
  GetUnitTypeProperty :: "string \<Rightarrow> string \<Rightarrow> string \<Rightarrow> error + variant"
  GetManagerProperty :: "string \<Rightarrow> error + string"

fun as_string :: "variant \<Rightarrow> string option" where
  "as_string (VString s) = Some s"
| "as_string _ = None"

fun as_uint32 :: "variant \<Rightarrow> 32 word option" where
  "as_uint32 (VUint32 n) = Some n"
| "as_uint32 _ = None"

fun as_uint64 :: "variant \<Rightarrow> 64 word option" where
  "as_uint64 (VUint64 n) = Some n"
| "as_uint64 _ = None"

definition MaxUint64 :: "64 word" where
  "MaxUint64 = 18446744073709551615"

definition getAllUnits :: "dbus_conn \<Rightarrow> error + unit_status list" where
  "getAllUnits conn =
     (case ListUnits conn of
        Inl err \<Rightarrow> Inl err
      | Inr units \<Rightarrow> Inr (map (\<lambda>status. status) units))"

section \<open>Summary\<close>

text \<open>Reading \<open>m[key]\<close> from a Go map: the zero value when the key is absent.\<close>

definition map_read :: "(string \<times> float64) list \<Rightarrow> string \<Rightarrow> float64" where
  "map_read m k = (case map_of m k of None \<Rightarrow> 0 | Some v \<Rightarrow> v)"

fun summarize_init :: "(string \<times> float64) list \<Rightarrow> string list \<Rightarrow> (string \<times> float64) list" where
  "summarize_init summarized [] = summarized"
| "summarize_init summarized (unitStateName # names) =
     summarize_init (map_assign summarized unitStateName 0) names"

fun summarize_count ::
  "(string \<times> float64) list \<Rightarrow> unit_status list \<Rightarrow> (string \<times> float64) list" where
  "summarize_count summarized [] = summarized"
| "summarize_count summarized (u # units) =
     summarize_count
       (map_assign summarized (ActiveState u) (float64_inc (map_read summarized (ActiveState u))))
       units"

definition summarizeUnits :: "unit_status list \<Rightarrow> (string \<times> float64) list" where
  "summarizeUnits units = summarize_count (summarize_init [] unitStatesName) units"

section \<open>Scheduling\<close>

text \<open>
  Two orders are not fixed by the program: the order in which \<open>range\<close> visits a map,
  and the order in which the sends of concurrent goroutines reach the channel (each
  goroutine's own sends stay in order). Both are decided by a schedule, a list of
  numbers: at each step the next number selects one of the queues that still hold
  something, and that queue's first element goes next.
\<close>

function interleave :: "nat list \<Rightarrow> 'a list list \<Rightarrow> 'a list" where
  "interleave sched qs =
     (let live = filter (\<lambda>q. q \<noteq> []) qs
      in if live = [] then []
         else
           let i = (case sched of [] \<Rightarrow> 0 | s # _ \<Rightarrow> s mod length live)
           in hd (live ! i) # interleave (tl sched) (live[i := tl (live ! i)]))"
  by pat_completeness auto

lemma length_concat_nonempty:
  "length (concat (filter (\<lambda>q. q \<noteq> []) qs)) = length (concat qs)"
  by (induction qs) auto

lemma length_concat_pop:
  "i < length live \<Longrightarrow> live ! i \<noteq> [] \<Longrightarrow>
   Suc (length (concat (live[i := tl (live ! i)]))) = length (concat live)"
proof (induction live arbitrary: i)
  case Nil
  then show ?case by simp
next
  case (Cons q live)
  then show ?case by (cases i) auto
qed

termination interleave
proof (relation "measure (\<lambda>(sched, qs). length (concat qs))", goal_cases)
  case 1
  show ?case by simp
next
  case (2 sched qs live i)
  have i: "i < length live"
    using 2 by (auto split: list.splits)
  have "live ! i \<in> set live"
    using i by simp
  then have "live ! i \<noteq> []"
    using 2(1) by auto
  from length_concat_pop [OF i this] length_concat_nonempty [of qs] 2(1)
  show ?case by simp
qed

declare interleave.simps [simp del]

text \<open>\<open>for k, v := range m\<close> visits every entry once, in an order the schedule picks.\<close>

definition range_map :: "nat list \<Rightarrow> ('k \<times> 'v) list \<Rightarrow> ('k \<times> 'v) list" where
  "range_map sched m = interleave sched (map (\<lambda>kv. [kv]) m)"


section \<open>Selecting units\<close>

text \<open>
  \<open>filterUnits\<close>: the loop appends to \<open>filtered\<close>, which starts empty. \<open>filterUnits_loop\<close>
  is the loop with the slice built so far as its accumulator.
\<close>

definition unit_selected :: "systemdMetricsSource \<Rightarrow> unit_status \<Rightarrow> bool" where
  "unit_selected src u \<longleftrightarrow>
     (case unitsFilter src of None \<Rightarrow> True | Some m \<Rightarrow> m (Name u)) \<and> LoadState u = ''loaded''"

fun filterUnits_loop ::
  "systemdMetricsSource \<Rightarrow> unit_status list \<Rightarrow> unit_status list \<Rightarrow> unit_status list" where
  "filterUnits_loop src filtered [] = filtered"
| "filterUnits_loop src filtered (u # units) =
     (if unit_selected src u
      then filterUnits_loop src (filtered @ [u]) units
      else filterUnits_loop src filtered units)"

definition filterUnits :: "systemdMetricsSource \<Rightarrow> unit_status list \<Rightarrow> unit_status list" where
  "filterUnits src units = filterUnits_loop src [] units"

section \<open>The aggregation step\<close>

text \<open>
  \<open>filterAppend\<close> reads and writes the process-wide counter \<open>filteredPoints\<close>, a
  go-metrics counter: an \<open>int64\<close> that \<open>Inc(1)\<close> increments with an atomic add, which
  wraps around from \<open>2^63 - 1\<close> to \<open>-2^63\<close>. The counter is a 64-bit word, read as a
  signed number by \<open>sint\<close>; its value is passed in and returned.
\<close>

type_synonym int64 = "64 word"

definition filter_keeps :: "systemdMetricsSource \<Rightarrow> MetricPoint \<Rightarrow> bool" where
  "filter_keeps src point \<longleftrightarrow>
     (case filters src of None \<Rightarrow> True | Some f \<Rightarrow> f (Metric point) (Tags point))"

definition filterAppend ::
  "systemdMetricsSource \<Rightarrow> MetricPoint list \<Rightarrow> MetricPoint \<Rightarrow> int64
     \<Rightarrow> MetricPoint list \<times> int64" where
  "filterAppend src points point filteredPoints =
     (if filter_keeps src point then (points @ [point], filteredPoints)
      else (points, filteredPoints + 1))"

text \<open>
  The consumer goroutine of \<open>ScrapeMetrics\<close>: it applies \<open>filterAppend\<close> to every point
  it receives from the channel, in the order received, until the channel is closed.
\<close>

fun gather_loop ::
  "systemdMetricsSource \<Rightarrow> MetricPoint list \<Rightarrow> int64 \<Rightarrow> MetricPoint list
     \<Rightarrow> MetricPoint list \<times> int64" where
  "gather_loop src points cnt [] = (points, cnt)"
| "gather_loop src points cnt (p # received) =
     (case filterAppend src points p cnt of
        (points', cnt') \<Rightarrow> gather_loop src points' cnt' received)"

section \<open>Category collectors\<close>

text \<open>
  Each collector loops over the units and sends points to the channel. The model
  returns the points sent, in the order sent; \<open>None\<close> is a panic (a failed type
  assertion), which ends the process. Log calls are omitted. The body of each loop is
  a function of its own, \<open>..._unit\<close>.
\<close>

definition unit_serviceType :: "dbus_conn \<Rightarrow> unit_status \<Rightarrow> string option" where
  "unit_serviceType conn u =
     (if HasSuffix (Name u) ''.service'' then
        (case GetUnitTypeProperty conn (Name u) ''Service'' ''Type'' of
           Inl err \<Rightarrow> Some []
         | Inr serviceTypeProperty \<Rightarrow> as_string serviceTypeProperty)
      else if HasSuffix (Name u) ''.mount'' then
        (case GetUnitTypeProperty conn (Name u) ''Mount'' ''Type'' of
           Inl err \<Rightarrow> Some []
         | Inr serviceTypeProperty \<Rightarrow> as_string serviceTypeProperty)
      else Some [])"

definition unit_state_points ::
  "systemdMetricsSource \<Rightarrow> unit_status \<Rightarrow> string \<Rightarrow> int \<Rightarrow> MetricPoint list" where
  "unit_state_points src u serviceType now =
     map (\<lambda>stateName.
            metricPoint src ''unit_state''
              (if stateName = ActiveState u then 1 else 0) now
              (Some (setTags [] (Name u) stateName serviceType)))
         unitStatesName"

definition unit_restart_points ::
  "systemdMetricsSource \<Rightarrow> dbus_conn \<Rightarrow> unit_status \<Rightarrow> int \<Rightarrow> MetricPoint list option" where
  "unit_restart_points src conn u now =
     (if collectRestartMetrics src \<and> HasSuffix (Name u) ''.service'' then
        (case GetUnitTypeProperty conn (Name u) ''Service'' ''NRestarts'' of
           Inl err \<Rightarrow> Some []
         | Inr restartsCount \<Rightarrow>
             do { n \<leftarrow> as_uint32 restartsCount;
                  Some [metricPoint src ''service_restart_total'' (real (unat n)) now
                          (Some (setTag [] ''name'' (Name u)))] })
      else Some [])"

definition collectUnitStatusMetrics_unit ::
  "systemdMetricsSource \<Rightarrow> dbus_conn \<Rightarrow> unit_status \<Rightarrow> int \<Rightarrow> MetricPoint list option" where
  "collectUnitStatusMetrics_unit src conn u now =
     do { serviceType \<leftarrow> unit_serviceType conn u;
          restarts \<leftarrow> unit_restart_points src conn u now;
          Some (unit_state_points src u serviceType now @ restarts) }"

fun collectUnitStatusMetrics ::
  "systemdMetricsSource \<Rightarrow> dbus_conn \<Rightarrow> unit_status list \<Rightarrow> int \<Rightarrow> MetricPoint list option" where
  "collectUnitStatusMetrics src conn [] now = Some []"
| "collectUnitStatusMetrics src conn (u # units) now =
     do { sent \<leftarrow> collectUnitStatusMetrics_unit src conn u now;
          rest \<leftarrow> collectUnitStatusMetrics src conn units now;
          Some (sent @ rest) }"

definition collectSockets_unit ::
  "systemdMetricsSource \<Rightarrow> dbus_conn \<Rightarrow> unit_status \<Rightarrow> int \<Rightarrow> MetricPoint list option" where
  "collectSockets_unit src conn u now =
     (if \<not> HasSuffix (Name u) ''.socket'' then Some []
      else
        case GetUnitTypeProperty conn (Name u) ''Socket'' ''NAccepted'' of
          Inl err \<Rightarrow> Some []
        | Inr acceptedConnectionCount \<Rightarrow>
            do { accepted \<leftarrow> as_uint32 acceptedConnectionCount;
                 let tgs = Some (setTag [] ''name'' (Name u));
                     p1 = metricPoint src ''socket_accepted_connections_total''
                            (real (unat accepted)) now tgs
                 in case GetUnitTypeProperty conn (Name u) ''Socket'' ''NConnections'' of
                      Inl err \<Rightarrow> Some [p1]
                    | Inr currentConnectionCount \<Rightarrow>
                        do { current \<leftarrow> as_uint32 currentConnectionCount;
                             let p2 = metricPoint src ''socket_current_connections''
                                        (real (unat current)) now tgs
                             in case GetUnitTypeProperty conn (Name u) ''Socket'' ''NRefused'' of
                                  Inl err \<Rightarrow> Some [p1, p2]
                                | Inr refusedConnectionCount \<Rightarrow>
                                    do { refused \<leftarrow> as_uint32 refusedConnectionCount;
                                         Some [p1, p2,
                                               metricPoint src ''socket_refused_connections_total''
                                                 (real (unat refused)) now tgs] } } })"

fun collectSockets ::
  "systemdMetricsSource \<Rightarrow> dbus_conn \<Rightarrow> unit_status list \<Rightarrow> int \<Rightarrow> MetricPoint list option" where
  "collectSockets src conn [] now = Some []"
| "collectSockets src conn (u # units) now =
     do { sent \<leftarrow> collectSockets_unit src conn u now;
          rest \<leftarrow> collectSockets src conn units now;
          Some (sent @ rest) }"

definition collectUnitStartTimeMetrics_unit ::
  "systemdMetricsSource \<Rightarrow> dbus_conn \<Rightarrow> unit_status \<Rightarrow> int \<Rightarrow> MetricPoint list option" where
  "collectUnitStartTimeMetrics_unit src conn u now =
     (let emit = (\<lambda>startTimeUsec :: 64 word.
                    [metricPoint src ''unit_start_time_seconds''
                       (float64_div (float64_of_nat (unat startTimeUsec)) 1000000) now
                       (Some (setTag [] ''name'' (Name u)))])
      in if ActiveState u \<noteq> ''active'' then Some (emit 0)
         else
           case GetUnitProperty conn (Name u) ''ActiveEnterTimestamp'' of
             Inl err \<Rightarrow> Some []
           | Inr timestampValue \<Rightarrow>
               do { startTimeUsec \<leftarrow> as_uint64 timestampValue;
                    Some (emit startTimeUsec) })"

fun collectUnitStartTimeMetrics ::
  "systemdMetricsSource \<Rightarrow> dbus_conn \<Rightarrow> unit_status list \<Rightarrow> int \<Rightarrow> MetricPoint list option" where
  "collectUnitStartTimeMetrics src conn [] now = Some []"
| "collectUnitStartTimeMetrics src conn (u # units) now =
     do { sent \<leftarrow> collectUnitStartTimeMetrics_unit src conn u now;
          rest \<leftarrow> collectUnitStartTimeMetrics src conn units now;
          Some (sent @ rest) }"

text \<open>
  The two halves of the body of \<open>collectUnitTasksMetrics\<close>: the \<open>TasksCurrent\<close> lookup
  with the point it may send, then the \<open>TasksMax\<close> lookup with the point it may send.
\<close>

definition tasksCurrent_points ::
  "systemdMetricsSource \<Rightarrow> dbus_conn \<Rightarrow> unit_status \<Rightarrow> int \<Rightarrow> MetricPoint list option" where
  "tasksCurrent_points src conn u now =
     (case GetUnitTypeProperty conn (Name u) ''Service'' ''TasksCurrent'' of
        Inl err \<Rightarrow> Some []
      | Inr tasksCurrentCount \<Rightarrow>
          do { val \<leftarrow> as_uint64 tasksCurrentCount;
               Some (if val \<noteq> MaxUint64
                     then [metricPoint src ''unit_tasks_current''
                             (real (float64_of_nat (unat val))) now
                             (Some (setTag [] ''name'' (Name u)))]
                     else []) })"

definition tasksMax_points ::
  "systemdMetricsSource \<Rightarrow> dbus_conn \<Rightarrow> unit_status \<Rightarrow> int \<Rightarrow> MetricPoint list option" where
  "tasksMax_points src conn u now =
     (case GetUnitTypeProperty conn (Name u) ''Service'' ''TasksMax'' of
        Inl err \<Rightarrow> Some []
      | Inr tasksMaxCount \<Rightarrow>
          do { val \<leftarrow> as_uint64 tasksMaxCount;
               Some (if val \<noteq> MaxUint64
                     then [metricPoint src ''unit_tasks_max''
                             (real (float64_of_nat (unat val))) now
                             (Some (setTag [] ''name'' (Name u)))]
                     else []) })"

definition collectUnitTasksMetrics_unit ::
  "systemdMetricsSource \<Rightarrow> dbus_conn \<Rightarrow> unit_status \<Rightarrow> int \<Rightarrow> MetricPoint list option" where
  "collectUnitTasksMetrics_unit src conn u now =
     (if HasSuffix (Name u) ''.service'' then
        do { current \<leftarrow> tasksCurrent_points src conn u now;
             maxi \<leftarrow> tasksMax_points src conn u now;
             Some (current @ maxi) }
      else Some [])"

fun collectUnitTasksMetrics ::
  "systemdMetricsSource \<Rightarrow> dbus_conn \<Rightarrow> unit_status list \<Rightarrow> int \<Rightarrow> MetricPoint list option" where
  "collectUnitTasksMetrics src conn [] now = Some []"
| "collectUnitTasksMetrics src conn (u # units) now =
     do { sent \<leftarrow> collectUnitTasksMetrics_unit src conn u now;
          rest \<leftarrow> collectUnitTasksMetrics src conn units now;
          Some (sent @ rest) }"

definition collectTimers_unit ::
  "systemdMetricsSource \<Rightarrow> dbus_conn \<Rightarrow> unit_status \<Rightarrow> int \<Rightarrow> MetricPoint list option" where
  "collectTimers_unit src conn u now =
     (if \<not> HasSuffix (Name u) ''.timer'' then Some []
      else
        case GetUnitTypeProperty conn (Name u) ''Timer'' ''LastTriggerUSec'' of
          Inl err \<Rightarrow> Some []
        | Inr lastTriggerValue \<Rightarrow>
            do { usec \<leftarrow> as_uint64 lastTriggerValue;
                 Some [metricPoint src ''timer_last_trigger_seconds''
                         (float64_div (float64_of_nat (unat usec)) 1000000) now
                         (Some (setTag [] ''name'' (Name u)))] })"

fun collectTimers ::
  "systemdMetricsSource \<Rightarrow> dbus_conn \<Rightarrow> unit_status list \<Rightarrow> int \<Rightarrow> MetricPoint list option" where
  "collectTimers src conn [] now = Some []"
| "collectTimers src conn (u # units) now =
     do { sent \<leftarrow> collectTimers_unit src conn u now;
          rest \<leftarrow> collectTimers src conn units now;
          Some (sent @ rest) }"

definition collectSummaryMetrics ::
  "systemdMetricsSource \<Rightarrow> nat list \<Rightarrow> (string \<times> float64) list \<Rightarrow> int \<Rightarrow> MetricPoint list" where
  "collectSummaryMetrics src sched summary now =
     map (\<lambda>(stateName, count).
            metricPoint src ''units'' count now (Some (setTag [] ''state_name'' stateName)))
         (range_map sched summary)"

text \<open>\<open>collectSystemState\<close> returns the points it sent and its error result.\<close>

definition collectSystemState ::
  "systemdMetricsSource \<Rightarrow> dbus_conn \<Rightarrow> int \<Rightarrow> MetricPoint list \<times> error option" where
  \<open>collectSystemState src conn now =
     (case GetManagerProperty conn ''SystemState'' of
        Inl err \<Rightarrow> ([], Some (''couldn't get system state: '' @ err))
      | Inr systemState \<Rightarrow>
          ([metricPoint src ''system_running''
              (if systemState = ''"running"'' then 1 else 0) now None], None))\<close>

section \<open>Scrape\<close>

text \<open>
  What the surroundings decide during one call of \<open>ScrapeMetrics\<close>: the result of
  \<open>dbus.New()\<close>, the two clock readings, and the two schedules. The arguments \<open>start\<close>
  and \<open>end\<close> are not used by the program.

  The result is \<open>None\<close> when a goroutine panics; otherwise the pair the function
  returns, \<open>None\<close> being nil, and the new value of the counter \<open>filteredPoints\<close>.
  The consumer goroutine runs from before the first send, so the summary points, sent
  by the calling goroutine before any collector is started, are received first; the
  sends of the five collector goroutines and of \<open>collectSystemState\<close> follow in an order
  the schedule picks.
\<close>

record scrape_env =
  dbus_New :: "error + dbus_conn"
  time_Now_Unix :: int
  time_Now :: int
  range_sched :: "nat list"
  chan_sched :: "nat list"

definition ScrapeMetrics ::
  "systemdMetricsSource \<Rightarrow> scrape_env \<Rightarrow> int64
     \<Rightarrow> ((DataBatch option \<times> error option) \<times> int64) option" where
  "ScrapeMetrics src env filteredPoints =
     (case dbus_New env of
        Inl err \<Rightarrow> Some ((None, Some (''couldn't get dbus connection: '' @ err)), filteredPoints)
      | Inr conn \<Rightarrow>
          (case getAllUnits conn of
             Inl err \<Rightarrow> Some ((None, Some (''couldn't get units: '' @ err)), filteredPoints)
           | Inr allUnits \<Rightarrow>
               let now = time_Now_Unix env;
                   summary = summarizeUnits allUnits;
                   summaryPoints = collectSummaryMetrics src (range_sched env) summary now;
                   units = filterUnits src allUnits
               in do {
                    status \<leftarrow> collectUnitStatusMetrics src conn units now;
                    startTimes \<leftarrow>
                      (if collectStartTimeMetrics src
                       then collectUnitStartTimeMetrics src conn units now else Some []);
                    tasks \<leftarrow>
                      (if collectTaskMetrics src
                       then collectUnitTasksMetrics src conn units now else Some []);
                    timers \<leftarrow> collectTimers src conn units now;
                    sockets \<leftarrow> collectSockets src conn units now;
                    case collectSystemState src conn now of
                      (systemState, err) \<Rightarrow>
                        (case gather_loop src [] filteredPoints
                                (summaryPoints @
                                 interleave (chan_sched env)
                                   [status, startTimes, tasks, timers, sockets, systemState]) of
                           (points, filteredPoints') \<Rightarrow>
                             Some ((Some \<lparr> BatchTimestamp = time_Now env, MetricPoints = points \<rparr>,
                                    err), filteredPoints'))
                  }))"

section \<open>Construction\<close>

text \<open>\<open>strconv.ParseBool\<close> of the Go library.\<close>

definition ParseBool :: "string \<Rightarrow> bool \<times> error option" where
  "ParseBool str =
     (if str \<in> set [''1'', ''t'', ''T'', ''true'', ''TRUE'', ''True''] then (True, None)
      else if str \<in> set [''0'', ''f'', ''F'', ''false'', ''FALSE'', ''False''] then (False, None)
      else (False, Some (''strconv.ParseBool: parsing '' @ str @ '': invalid syntax'')))"

text \<open>
  \<open>NewProvider\<close> reads the query values of the URI (\<open>vals\<close>, a \<open>map[string][]string\<close>:
  an absent key reads as the empty list), the node name and the host name, and calls
  the two filter builders \<open>fromQuery\<close> and \<open>filter.FromQuery\<close>, which are declared
  outside this file. Each of the three toggles starts at its default and is
  overwritten by the first result of \<open>ParseBool\<close> when the key has a value; the
  error result is only logged.
\<close>

record systemdProvider =
  sources :: "systemdMetricsSource list"

record provider_env =
  util_GetNodeName :: string
  os_Hostname :: "error + string"
  fromQuery :: "(string \<Rightarrow> string list) \<Rightarrow> (string \<Rightarrow> bool) option"
  filter_FromQuery :: "(string \<Rightarrow> string list) \<Rightarrow> (string \<Rightarrow> tags option \<Rightarrow> bool) option"

definition NewProvider ::
  "provider_env \<Rightarrow> (string \<Rightarrow> string list) \<Rightarrow> systemdProvider \<times> error option" where
  "NewProvider env vals =
     (let prefix0 = (case vals ''prefix'' of [] \<Rightarrow> ''kubernetes.systemd.'' | v # _ \<Rightarrow> v);
          source0 =
            (if util_GetNodeName env = [] then
               (case os_Hostname env of
                  Inl err \<Rightarrow> ''wavefront-kubernetes-collector''
                | Inr hostname \<Rightarrow> hostname)
             else util_GetNodeName env);
          collectTaskMetrics0 =
            (case vals ''taskMetrics'' of [] \<Rightarrow> True | v # _ \<Rightarrow> fst (ParseBool v));
          collectStartTimeMetrics0 =
            (case vals ''startTimeMetrics'' of [] \<Rightarrow> True | v # _ \<Rightarrow> fst (ParseBool v));
          collectRestartMetrics0 =
            (case vals ''restartMetrics'' of [] \<Rightarrow> False | v # _ \<Rightarrow> fst (ParseBool v))
      in (\<lparr> sources =
              [\<lparr> prefix = prefix0,
                 source = source0,
                 collectTaskMetrics = collectTaskMetrics0,
                 collectStartTimeMetrics = collectStartTimeMetrics0,
                 collectRestartMetrics = collectRestartMetrics0,
                 unitsFilter = fromQuery env vals,
                 filters = filter_FromQuery env vals \<rparr>] \<rparr>,
          None))"

section \<open>The naming convention, in the words of the specification\<close>

text \<open>Every underscore of an internal category token is replaced by a dot.\<close>

definition dotted :: "string \<Rightarrow> string" where
  "dotted token = map (\<lambda>c. if c = CHR ''_'' then CHR ''.'' else c) token"

section \<open>Notions used to state the results\<close>

text \<open>
  The common shape of the five collector loops: run the body on every unit in order,
  stop at a panic, and collect what was sent.
\<close>

fun for_units :: "(unit_status \<Rightarrow> 'a list option) \<Rightarrow> unit_status list \<Rightarrow> 'a list option" where
  "for_units body [] = Some []"
| "for_units body (u # units) =
     do { sent \<leftarrow> body u; rest \<leftarrow> for_units body units; Some (sent @ rest) }"




text \<open>The internal category tokens that occur in the program.\<close>

definition category_tokens :: "string list" where
  "category_tokens =
     [''units'', ''unit_state'', ''service_restart_total'',
      ''socket_accepted_connections_total'', ''socket_current_connections'',
      ''socket_refused_connections_total'', ''unit_start_time_seconds'',
      ''unit_tasks_current'', ''unit_tasks_max'', ''timer_last_trigger_seconds'',
      ''system_running'']"

definition named_by_convention :: "systemdMetricsSource \<Rightarrow> MetricPoint \<Rightarrow> bool" where
  "named_by_convention src p \<longleftrightarrow>
     Metric p \<in> set (map (\<lambda>token. prefix src @ dotted token) category_tokens)"

section \<open>Example inputs\<close>

text \<open>
  A source with the default settings and no filters; units of each kind; a connection
  whose answers are fixed per property name.
\<close>

definition example_source :: systemdMetricsSource where
  "example_source =
     \<lparr> prefix = ''kubernetes.systemd.'', source = ''node-1'',
       collectTaskMetrics = True, collectStartTimeMetrics = True,
       collectRestartMetrics = False, unitsFilter = None, filters = None \<rparr>"

definition example_service :: unit_status where
  "example_service = \<lparr> Name = ''a.service'', LoadState = ''loaded'', ActiveState = ''active'' \<rparr>"

definition example_timer :: unit_status where
  "example_timer = \<lparr> Name = ''b.timer'', LoadState = ''loaded'', ActiveState = ''inactive'' \<rparr>"

definition example_socket :: unit_status where
  "example_socket = \<lparr> Name = ''s.socket'', LoadState = ''loaded'', ActiveState = ''active'' \<rparr>"

definition example_reloading :: unit_status where
  "example_reloading =
     \<lparr> Name = ''r.service'', LoadState = ''loaded'', ActiveState = ''reloading'' \<rparr>"

definition example_masked :: unit_status where
  "example_masked = \<lparr> Name = ''m.service'', LoadState = ''masked'', ActiveState = ''inactive'' \<rparr>"

definition example_type_property :: "string \<Rightarrow> string \<Rightarrow> string \<Rightarrow> error + variant" where
  "example_type_property name unitType propertyName =
     (if propertyName = ''Type'' then Inr (VString ''simple'')
      else if propertyName = ''TasksCurrent'' then Inr (VUint64 3)
      else if propertyName = ''TasksMax'' then Inr (VUint64 MaxUint64)
      else if propertyName = ''NAccepted'' then Inr (VUint32 4)
      else if propertyName = ''NConnections'' then Inl ''timeout''
      else if propertyName = ''NRefused'' then Inr (VUint32 1)
      else Inl ''unknown property'')"

definition example_unit_property :: "string \<Rightarrow> string \<Rightarrow> error + variant" where
  "example_unit_property name propertyName =
     (if propertyName = ''ActiveEnterTimestamp'' then Inr (VUint64 5000000)
      else Inl ''unknown property'')"

definition example_manager_failing :: "string \<Rightarrow> error + string" where
  "example_manager_failing propertyName = Inl ''no reply''"

definition example_conn :: dbus_conn where
  "example_conn =
     \<lparr> ListUnits = Inr [example_service, example_timer],
       GetUnitProperty = example_unit_property,
       GetUnitTypeProperty = example_type_property,
       GetManagerProperty = example_manager_failing \<rparr>"

text \<open>A metric filter that rejects every point tagged with the name of the timer unit.\<close>

definition example_metric_filter :: "string \<Rightarrow> tags option \<Rightarrow> bool" where
  "example_metric_filter metric tgs =
     (case tgs of None \<Rightarrow> True | Some t \<Rightarrow> map_of t ''name'' \<noteq> Some ''b.timer'')"

definition example_filtering_source :: systemdMetricsSource where
  "example_filtering_source = example_source \<lparr> filters := Some example_metric_filter \<rparr>"

definition example_point :: "string \<Rightarrow> MetricPoint" where
  "example_point name =
     metricPoint example_filtering_source ''unit_start_time_seconds'' 0 100
       (Some (setTag [] ''name'' name))"

text \<open>Query values in which \<open>taskMetrics\<close> is present and is not a boolean.\<close>

definition example_vals :: "string \<Rightarrow> string list" where
  "example_vals key = (if key = ''taskMetrics'' then [''maybe''] else [])"

definition example_provider_env :: provider_env where
  "example_provider_env =
     \<lparr> util_GetNodeName = ''node-1'', os_Hostname = Inr ''host-1'',
       fromQuery = (\<lambda>vals. None), filter_FromQuery = (\<lambda>vals. None) \<rparr>"

text \<open>
  Environments of a scrape: the example connection (whose system-state lookup
  fails); a connection that differs from it only in the answers about the unit
  \<open>a.service\<close>, all of which fail; one that differs only in a successful system-state
  lookup; a connection whose unit listing fails; and a failing \<open>dbus.New()\<close>.
\<close>

definition example_env :: scrape_env where
  "example_env =
     \<lparr> dbus_New = Inr example_conn, time_Now_Unix = 100, time_Now = 100,
       range_sched = [], chan_sched = [] \<rparr>"








section \<open>Results\<close>

lemma filterUnits_loop_eq:
  "filterUnits_loop src acc units = acc @ filter (unit_selected src) units"
  by (induction units arbitrary: acc) simp_all

text \<open>
  C5: the Selector keeps a unit iff its load state is "loaded" and (no name filter is
  configured or the name filter matches the unit's name), and keeps the kept units in
  the order of the input list: the output is the input list with the other units
  removed.
\<close>

theorem filterUnits_selects:
  "filterUnits src units =
     filter (\<lambda>u. LoadState u = ''loaded'' \<and>
                 (unitsFilter src = None \<or> the (unitsFilter src) (Name u))) units"
proof -
  have "unit_selected src =
          (\<lambda>u. LoadState u = ''loaded'' \<and>
                (unitsFilter src = None \<or> the (unitsFilter src) (Name u)))"
    by (auto simp: unit_selected_def fun_eq_iff split: option.splits)
  then show ?thesis
    by (simp add: filterUnits_def filterUnits_loop_eq)
qed

subsection \<open>Auxiliary facts\<close>

lemma bind_Some_iff:
  "(Option.bind m f = Some y) = (\<exists>x. m = Some x \<and> f x = Some y)"
  by (cases m) auto

lemma ReplaceAll_underscore: "ReplaceAll s ''_'' ''.'' = dotted s"
proof (induction s)
  case Nil
  show ?case by (simp add: ReplaceAll.simps dotted_def)
next
  case (Cons c cs)
  have "ReplaceAll (c # cs) ''_'' ''.'' =
          (if c = CHR ''_'' then ''.'' @ ReplaceAll cs ''_'' ''.''
           else c # ReplaceAll cs ''_'' ''.'')"
    by (subst ReplaceAll.simps) simp
  with Cons show ?case by (simp add: dotted_def)
qed

lemma metricPoint_fields:
  "Metric (metricPoint src name val ts tgs) = prefix src @ dotted name"
  "Value (metricPoint src name val ts tgs) = val"
  "Timestamp (metricPoint src name val ts tgs) = ts"
  "Source (metricPoint src name val ts tgs) = source src"
  "Tags (metricPoint src name val ts tgs) = tgs"
  by (simp_all add: metricPoint_def ReplaceAll_underscore)

lemma example_HasSuffix:
  "HasSuffix ''a.service'' ''.service''" "HasSuffix ''r.service'' ''.service''"
  "\<not> HasSuffix ''a.service'' ''.socket''" "\<not> HasSuffix ''a.service'' ''.timer''"
  "HasSuffix ''s.socket'' ''.socket''" "\<not> HasSuffix ''s.socket'' ''.timer''"
  "\<not> HasSuffix ''s.socket'' ''.service''" "\<not> HasSuffix ''s.socket'' ''.mount''"
  "\<not> HasSuffix ''b.timer'' ''.service''" "\<not> HasSuffix ''b.timer'' ''.mount''"
  "HasSuffix ''b.timer'' ''.timer''" "\<not> HasSuffix ''b.timer'' ''.socket''"
  by (simp_all add: HasSuffix_def)

subsection \<open>The aggregation step\<close>

lemma gather_loop_eq:
  "gather_loop src points cnt received =
     (points @ filter (filter_keeps src) received,
      cnt + of_nat (length (filter (\<lambda>p. \<not> filter_keeps src p) received)))"
  by (induction received arbitrary: points cnt) (simp_all add: filterAppend_def)

lemma sint_inc:
  fixes cnt :: int64
  assumes "sint cnt \<noteq> 2 ^ 63 - 1"
  shows "sint (cnt + 1) = sint cnt + 1"
proof -
  have lo: "- (2 ^ 63) \<le> sint cnt" and hi: "sint cnt < 2 ^ 63"
    using sint_ge [of cnt] sint_lt [of cnt] by simp_all
  have "sint (cnt + 1) = signed_take_bit 63 (sint cnt + 1)"
    by (simp add: sint_word_ariths)
  also have "\<dots> = sint cnt + 1"
    using lo hi assms by (intro signed_take_bit_int_eq_self) simp_all
  finally show ?thesis .
qed

text \<open>
  C2: a point handed to the aggregation step is appended to the accumulated sequence
  iff the metric filter is nil or matches the point's metric name and tags; then the
  counter is unchanged. Otherwise the sequence is unchanged and the dropped-point
  counter is incremented once: its new value is \<open>cnt + 1\<close> in 64-bit arithmetic, which
  is exactly one more than before as a number whenever the counter was below the
  largest \<open>int64\<close>, \<open>2^63 - 1\<close>.
\<close>

theorem filterAppend_appends_iff_kept:
  "filterAppend src points point cnt =
     (if filters src = None \<or> the (filters src) (Metric point) (Tags point)
      then (points @ [point], cnt)
      else (points, cnt + 1))
   \<and> ((fst (filterAppend src points point cnt) = points @ [point]) =
        (filters src = None \<or> the (filters src) (Metric point) (Tags point)))
   \<and> (\<not> (filters src = None \<or> the (filters src) (Metric point) (Tags point)) \<and>
       sint cnt \<noteq> 2 ^ 63 - 1 \<longrightarrow>
       sint (snd (filterAppend src points point cnt)) = sint cnt + 1)"
  by (simp add: filterAppend_def filter_keeps_def sint_inc split: option.splits)

theorem filterAppend_appends_iff_kept_witness:
  "filterAppend example_filtering_source [example_point ''a.service''] (example_point ''b.timer'') 7
     = ([example_point ''a.service''], 8)
   \<and> sint (7 :: int64) \<noteq> 2 ^ 63 - 1
   \<and> sint (snd (filterAppend example_filtering_source [example_point ''a.service'']
                   (example_point ''b.timer'') 7)) = 8
   \<and> filterAppend example_filtering_source [] (example_point ''a.service'') 7
     = ([example_point ''a.service''], 7)"
  using filterAppend_appends_iff_kept
          [of example_filtering_source "[example_point ''a.service'']" "example_point ''b.timer''" 7]
        filterAppend_appends_iff_kept
          [of example_filtering_source "[]" "example_point ''a.service''" 7]
  by (simp add: example_filtering_source_def example_source_def example_metric_filter_def
        example_point_def metricPoint_fields setTag_def)

subsection \<open>Construction\<close>

text \<open>
  C10: when \<open>taskMetrics\<close>, \<open>startTimeMetrics\<close> or \<open>restartMetrics\<close> is present in the
  query and its first value does not parse as a boolean, the corresponding toggle of
  the constructed source is false, whereas an absent \<open>taskMetrics\<close> or
  \<open>startTimeMetrics\<close> leaves the toggle at its default, true.
\<close>

theorem NewProvider_unparsable_toggle_is_false:
  assumes "snd (ParseBool v) \<noteq> None"
      and "NewProvider env vals = (provider, err)"
      and "sources provider = [src]"
  shows "(vals ''taskMetrics'' = v # vs \<longrightarrow> collectTaskMetrics src = False) \<and>
         (vals ''startTimeMetrics'' = v # vs \<longrightarrow> collectStartTimeMetrics src = False) \<and>
         (vals ''restartMetrics'' = v # vs \<longrightarrow> collectRestartMetrics src = False) \<and>
         (vals ''taskMetrics'' = [] \<longrightarrow> collectTaskMetrics src = True) \<and>
         (vals ''startTimeMetrics'' = [] \<longrightarrow> collectStartTimeMetrics src = True)"
proof -
  have "fst (ParseBool v) = False"
    using assms(1) by (auto simp: ParseBool_def split: if_splits)
  then show ?thesis
    using assms(2,3) by (auto simp: NewProvider_def Let_def)
qed

theorem NewProvider_unparsable_toggle_is_false_witness:
  "snd (ParseBool ''maybe'') \<noteq> None
   \<and> example_vals ''taskMetrics'' = [''maybe'']
   \<and> example_vals ''startTimeMetrics'' = []
   \<and> collectTaskMetrics (hd (sources (fst (NewProvider example_provider_env example_vals)))) = False
   \<and> collectStartTimeMetrics (hd (sources (fst (NewProvider example_provider_env example_vals))))
       = True"
proof -
  have p: "snd (ParseBool ''maybe'') \<noteq> None"
    by (simp add: ParseBool_def)
  have n: "NewProvider example_provider_env example_vals =
             (fst (NewProvider example_provider_env example_vals),
              snd (NewProvider example_provider_env example_vals))"
    by simp
  have s: "sources (fst (NewProvider example_provider_env example_vals)) =
             [hd (sources (fst (NewProvider example_provider_env example_vals)))]"
    by (simp add: NewProvider_def Let_def)
  have v: "example_vals ''taskMetrics'' = [''maybe'']" "example_vals ''startTimeMetrics'' = []"
    by (simp_all add: example_vals_def)
  from NewProvider_unparsable_toggle_is_false [OF p n s, of "[]"] p v
  show ?thesis by simp
qed

subsection \<open>Unit status\<close>

lemma state_name_tag:
  "stateName \<noteq> [] \<Longrightarrow>
   map_of (setTags [] name stateName service) ''state_name'' = Some stateName"
  by (simp add: setTags_def setTag_def)

lemma unit_state_points_view:
  "map (\<lambda>p. (map_of (the (Tags p)) ''state_name'', Value p)) (unit_state_points src u ty now) =
     map (\<lambda>stateName. (Some stateName, if stateName = ActiveState u then 1 else 0)) unitStatesName"
  by (simp add: unit_state_points_def unitStatesName_def metricPoint_fields state_name_tag)

lemma unit_state_points_metric:
  "filter (\<lambda>p. Metric p = prefix src @ ''unit.state'') (unit_state_points src u ty now) =
     unit_state_points src u ty now"
  by (simp add: unit_state_points_def unitStatesName_def metricPoint_fields dotted_def)

lemma unit_restart_points_metric:
  "unit_restart_points src conn u now = Some rs \<Longrightarrow>
   filter (\<lambda>p. Metric p = prefix src @ ''unit.state'') rs = []"
  by (auto simp: unit_restart_points_def metricPoint_fields dotted_def bind_Some_iff
           split: if_splits sum.splits)

lemma status_unit_view:
  assumes "collectUnitStatusMetrics_unit src conn u now = Some sent"
  shows "map (\<lambda>p. (map_of (the (Tags p)) ''state_name'', Value p))
           (filter (\<lambda>p. Metric p = prefix src @ ''unit.state'') sent) =
         map (\<lambda>stateName. (Some stateName, if stateName = ActiveState u then 1 else 0))
           unitStatesName"
proof -
  from assms obtain ty rs where
    rs: "unit_restart_points src conn u now = Some rs"
    and sent: "sent = unit_state_points src u ty now @ rs"
    by (auto simp: collectUnitStatusMetrics_unit_def bind_Some_iff)
  show ?thesis
    unfolding sent filter_append unit_state_points_metric unit_restart_points_metric [OF rs]
    by (simp add: unit_state_points_view)
qed

lemma hot_values:
  "length (filter (\<lambda>v. v = (1::real))
             (map (\<lambda>stateName. if stateName = s then 1 else 0) unitStatesName)) =
     (if s \<in> set unitStatesName then 1 else 0)"
  by (auto simp: unitStatesName_def)

text \<open>
  C3, as the claim states it, fails: a unit whose active state is none of the five
  known names (here "reloading") gets five \<open>unit_state\<close> points that all have value 0.
\<close>

theorem reloading_unit_has_no_hot_point:
  "map_option (map Value)
     (collectUnitStatusMetrics example_source example_conn [example_reloading] 0) =
   Some [0, 0, 0, 0, 0]"
  by (simp add: collectUnitStatusMetrics_unit_def unit_serviceType_def unit_restart_points_def
        unit_state_points_def unitStatesName_def example_source_def example_conn_def
        example_reloading_def example_type_property_def example_HasSuffix metricPoint_def)

text \<open>
  C3, amended: when the Unit Status collector completes, its \<open>unit_state\<close> points are,
  unit after unit in the order of the selected units, one point per known active-state
  name, tagged with that state name, with value 1 if the name equals the unit's active
  state and 0 otherwise. So a unit has exactly one point of value 1 among its five when
  its active state is one of the five known names, and none otherwise.
\<close>

theorem unit_state_points_per_unit:
  assumes "collectUnitStatusMetrics src conn units now = Some pts"
  shows "map (\<lambda>p. (map_of (the (Tags p)) ''state_name'', Value p))
           (filter (\<lambda>p. Metric p = prefix src @ ''unit.state'') pts) =
         concat (map (\<lambda>u. map (\<lambda>stateName. (Some stateName,
                                   if stateName = ActiveState u then 1 else 0))
                            unitStatesName) units)
         \<and> (\<forall>u \<in> set units.
              length (filter (\<lambda>v. v = (1::real))
                        (map (\<lambda>stateName. if stateName = ActiveState u then 1 else 0)
                           unitStatesName)) =
              (if ActiveState u \<in> set unitStatesName then 1 else 0))"
proof
  show "map (\<lambda>p. (map_of (the (Tags p)) ''state_name'', Value p))
           (filter (\<lambda>p. Metric p = prefix src @ ''unit.state'') pts) =
         concat (map (\<lambda>u. map (\<lambda>stateName. (Some stateName,
                                   if stateName = ActiveState u then 1 else 0))
                            unitStatesName) units)"
    using assms
  proof (induction units arbitrary: pts)
    case Nil
    then show ?case by simp
  next
    case (Cons u units)
    from Cons.prems obtain sent rest where
      sent: "collectUnitStatusMetrics_unit src conn u now = Some sent"
      and rest: "collectUnitStatusMetrics src conn units now = Some rest"
      and pts: "pts = sent @ rest"
      by (auto simp: bind_Some_iff)
    show ?case
      unfolding pts using status_unit_view [OF sent] Cons.IH [OF rest] by simp
  qed
next
  show "\<forall>u \<in> set units.
              length (filter (\<lambda>v. v = (1::real))
                        (map (\<lambda>stateName. if stateName = ActiveState u then 1 else 0)
                           unitStatesName)) =
              (if ActiveState u \<in> set unitStatesName then 1 else 0)"
    by (intro ballI) (rule hot_values)
qed

theorem unit_state_points_per_unit_witness:
  "map (\<lambda>p. (map_of (the (Tags p)) ''state_name'', Value p))
     (filter (\<lambda>p. Metric p = ''kubernetes.systemd.unit.state'')
        (the (collectUnitStatusMetrics example_source example_conn
                [example_reloading, example_timer] 0))) =
   [(Some ''active'', 0), (Some ''activating'', 0), (Some ''deactivating'', 0),
    (Some ''inactive'', 0), (Some ''failed'', 0),
    (Some ''active'', 0), (Some ''activating'', 0), (Some ''deactivating'', 0),
    (Some ''inactive'', 1), (Some ''failed'', 0)]"
proof -
  have "collectUnitStatusMetrics example_source example_conn
          [example_reloading, example_timer] 0 \<noteq> None"
    by (simp add: collectUnitStatusMetrics_unit_def unit_serviceType_def
          unit_restart_points_def example_source_def example_conn_def example_reloading_def
          example_timer_def example_type_property_def example_HasSuffix)
  then have "collectUnitStatusMetrics example_source example_conn
               [example_reloading, example_timer] 0 =
             Some (the (collectUnitStatusMetrics example_source example_conn
                          [example_reloading, example_timer] 0))"
    by simp
  from unit_state_points_per_unit [OF this]
  show ?thesis
    by (simp add: example_source_def example_reloading_def example_timer_def
          unitStatesName_def)
qed


subsection \<open>Sockets\<close>

text \<open>
  C7, as the claim states it, fails: when the \<open>NConnections\<close> lookup fails, the
  refused-connections point is not sent although the \<open>NRefused\<close> lookup would succeed.
\<close>

theorem current_failure_skips_refused:
  "GetUnitTypeProperty example_conn (Name example_socket) ''Socket'' ''NRefused'' = Inr (VUint32 1)
   \<and> map_option (map Metric) (collectSockets example_source example_conn [example_socket] 0) =
       Some [''kubernetes.systemd.socket.accepted.connections.total'']"
  by (simp add: collectSockets_unit_def Let_def example_conn_def example_socket_def
        example_type_property_def example_HasSuffix metricPoint_fields example_source_def dotted_def)

text \<open>
  C7, amended: for a socket unit whose answers have the expected type, a failed
  \<open>NAccepted\<close> lookup sends nothing for the unit; a failed \<open>NConnections\<close> lookup
  leaves the accepted-connections point and skips both the current-connections point
  and the \<open>NRefused\<close> lookup; a failed \<open>NRefused\<close> lookup, which is attempted only
  after the two others succeeded, leaves the two other points as they are.
\<close>

theorem collectSockets_unit_short_circuit:
  assumes "HasSuffix (Name u) ''.socket''"
  shows
  "(GetUnitTypeProperty conn (Name u) ''Socket'' ''NAccepted'' = Inl e1 \<longrightarrow>
      collectSockets_unit src conn u now = Some [])
   \<and> (GetUnitTypeProperty conn (Name u) ''Socket'' ''NAccepted'' = Inr (VUint32 a) \<and>
       GetUnitTypeProperty conn (Name u) ''Socket'' ''NConnections'' = Inl e2 \<longrightarrow>
      collectSockets_unit src conn u now =
        Some [metricPoint src ''socket_accepted_connections_total'' (real (unat a)) now
                (Some (setTag [] ''name'' (Name u)))])
   \<and> (GetUnitTypeProperty conn (Name u) ''Socket'' ''NAccepted'' = Inr (VUint32 a) \<and>
       GetUnitTypeProperty conn (Name u) ''Socket'' ''NConnections'' = Inr (VUint32 c) \<and>
       GetUnitTypeProperty conn (Name u) ''Socket'' ''NRefused'' = Inl e3 \<longrightarrow>
      collectSockets_unit src conn u now =
        Some [metricPoint src ''socket_accepted_connections_total'' (real (unat a)) now
                (Some (setTag [] ''name'' (Name u))),
              metricPoint src ''socket_current_connections'' (real (unat c)) now
                (Some (setTag [] ''name'' (Name u)))])
   \<and> (GetUnitTypeProperty conn (Name u) ''Socket'' ''NAccepted'' = Inr (VUint32 a) \<and>
       GetUnitTypeProperty conn (Name u) ''Socket'' ''NConnections'' = Inr (VUint32 c) \<and>
       GetUnitTypeProperty conn (Name u) ''Socket'' ''NRefused'' = Inr (VUint32 r) \<longrightarrow>
      collectSockets_unit src conn u now =
        Some [metricPoint src ''socket_accepted_connections_total'' (real (unat a)) now
                (Some (setTag [] ''name'' (Name u))),
              metricPoint src ''socket_current_connections'' (real (unat c)) now
                (Some (setTag [] ''name'' (Name u))),
              metricPoint src ''socket_refused_connections_total'' (real (unat r)) now
                (Some (setTag [] ''name'' (Name u)))])"
  using assms by (simp add: collectSockets_unit_def Let_def)

theorem collectSockets_unit_short_circuit_witness:
  "HasSuffix (Name example_socket) ''.socket''
   \<and> GetUnitTypeProperty example_conn (Name example_socket) ''Socket'' ''NAccepted'' = Inr (VUint32 4)
   \<and> GetUnitTypeProperty example_conn (Name example_socket) ''Socket'' ''NConnections'' = Inl ''timeout''
   \<and> collectSockets_unit example_source example_conn example_socket 0 =
        Some [metricPoint example_source ''socket_accepted_connections_total'' 4 0
                (Some [(''name'', ''s.socket'')])]"
proof -
  have s: "HasSuffix (Name example_socket) ''.socket''"
    by (simp add: example_socket_def example_HasSuffix)
  have a: "GetUnitTypeProperty example_conn (Name example_socket) ''Socket'' ''NAccepted'' = Inr (VUint32 4)"
    and c: "GetUnitTypeProperty example_conn (Name example_socket) ''Socket'' ''NConnections'' = Inl ''timeout''"
    by (simp_all add: example_conn_def example_type_property_def)
  from collectSockets_unit_short_circuit
         [OF s, where conn = example_conn and a = 4 and ?e2.0 = "''timeout''"
            and src = example_source and now = 0] a c s
  show ?thesis by (simp add: example_socket_def setTag_def)
qed

subsection \<open>Task counts\<close>

lemma as_uint64_Some: "(as_uint64 x = Some v) = (x = VUint64 v)"
  by (cases x) auto

lemma tasksCurrent_points_eq:
  "tasksCurrent_points src conn u now = Some ps \<Longrightarrow>
   ps = (case GetUnitTypeProperty conn (Name u) ''Service'' ''TasksCurrent'' of
           Inr (VUint64 v) \<Rightarrow>
             if v \<noteq> MaxUint64
             then [metricPoint src ''unit_tasks_current'' (real (float64_of_nat (unat v))) now
                     (Some (setTag [] ''name'' (Name u)))]
             else []
         | _ \<Rightarrow> [])"
  by (auto simp: tasksCurrent_points_def bind_Some_iff as_uint64_Some split: sum.splits)

lemma tasksMax_points_eq:
  "tasksMax_points src conn u now = Some ps \<Longrightarrow>
   ps = (case GetUnitTypeProperty conn (Name u) ''Service'' ''TasksMax'' of
           Inr (VUint64 v) \<Rightarrow>
             if v \<noteq> MaxUint64
             then [metricPoint src ''unit_tasks_max'' (real (float64_of_nat (unat v))) now
                     (Some (setTag [] ''name'' (Name u)))]
             else []
         | _ \<Rightarrow> [])"
  by (auto simp: tasksMax_points_def bind_Some_iff as_uint64_Some split: sum.splits)

lemma tasks_unit_eq:
  assumes "collectUnitTasksMetrics_unit src conn u now = Some sent"
  shows "sent =
     (if HasSuffix (Name u) ''.service'' then
        (case GetUnitTypeProperty conn (Name u) ''Service'' ''TasksCurrent'' of
           Inr (VUint64 v) \<Rightarrow>
             if v \<noteq> MaxUint64
             then [metricPoint src ''unit_tasks_current'' (real (float64_of_nat (unat v))) now
                     (Some (setTag [] ''name'' (Name u)))]
             else []
         | _ \<Rightarrow> []) @
        (case GetUnitTypeProperty conn (Name u) ''Service'' ''TasksMax'' of
           Inr (VUint64 v) \<Rightarrow>
             if v \<noteq> MaxUint64
             then [metricPoint src ''unit_tasks_max'' (real (float64_of_nat (unat v))) now
                     (Some (setTag [] ''name'' (Name u)))]
             else []
         | _ \<Rightarrow> [])
      else [])"
proof (cases "HasSuffix (Name u) ''.service''")
  case True
  with assms obtain c m where
    "tasksCurrent_points src conn u now = Some c" "tasksMax_points src conn u now = Some m"
    "sent = c @ m"
    by (auto simp: collectUnitTasksMetrics_unit_def bind_Some_iff)
  with True tasksCurrent_points_eq tasksMax_points_eq show ?thesis by simp
next
  case False
  with assms show ?thesis by (simp add: collectUnitTasksMetrics_unit_def)
qed

lemma tasks_unit_current_only_if:
  assumes "collectUnitTasksMetrics_unit src conn u now = Some sent" "p \<in> set sent"
    "Metric p = prefix src @ ''unit.tasks.current''"
  shows "\<exists>v. GetUnitTypeProperty conn (Name u) ''Service'' ''TasksCurrent'' = Inr (VUint64 v)
             \<and> v \<noteq> MaxUint64"
  using assms(2,3) unfolding tasks_unit_eq [OF assms(1)]
  by (auto simp: metricPoint_fields dotted_def split: if_splits sum.splits variant.splits)
     metis+

lemma tasks_unit_max_only_if:
  assumes "collectUnitTasksMetrics_unit src conn u now = Some sent" "p \<in> set sent"
    "Metric p = prefix src @ ''unit.tasks.max''"
  shows "\<exists>v. GetUnitTypeProperty conn (Name u) ''Service'' ''TasksMax'' = Inr (VUint64 v)
             \<and> v \<noteq> MaxUint64"
  using assms(2,3) unfolding tasks_unit_eq [OF assms(1)]
  by (auto simp: metricPoint_fields dotted_def split: if_splits sum.splits variant.splits)
     metis+

lemma collectUnitTasksMetrics_Cons:
  "collectUnitTasksMetrics src conn (u # units) now = Some pts \<Longrightarrow>
   \<exists>sent rest. collectUnitTasksMetrics_unit src conn u now = Some sent \<and>
     collectUnitTasksMetrics src conn units now = Some rest \<and> pts = sent @ rest"
  by (auto simp: bind_Some_iff)

text \<open>
  C6: when the Task Counts collector completes, what it sent is, unit after unit in the
  order of the selected units: nothing for a unit that is not a service; for a service
  unit, a \<open>unit_tasks_current\<close> point exactly when the \<open>TasksCurrent\<close> lookup succeeded
  with a value other than the maximum unsigned 64-bit integer, followed by a
  \<open>unit_tasks_max\<close> point exactly when the \<open>TasksMax\<close> lookup succeeded with a value
  other than that maximum. So no point is ever sent for a looked-up value equal to the
  maximum, and whether one of the two points is sent depends on its own lookup only:
  a failure or the maximum in one lookup leaves the other point as it is. The second
  and third part say the same of a single loop iteration: a unit whose \<open>TasksCurrent\<close>
  (\<open>TasksMax\<close>) value is the maximum gets no \<open>unit_tasks_current\<close> (\<open>unit_tasks_max\<close>)
  point.
\<close>

theorem task_points_never_for_MaxUint64:
  assumes "collectUnitTasksMetrics src conn units now = Some pts"
  shows
  "pts =
     concat (map (\<lambda>u.
       if HasSuffix (Name u) ''.service'' then
         (case GetUnitTypeProperty conn (Name u) ''Service'' ''TasksCurrent'' of
            Inr (VUint64 v) \<Rightarrow>
              if v \<noteq> MaxUint64
              then [metricPoint src ''unit_tasks_current'' (real (float64_of_nat (unat v))) now
                      (Some (setTag [] ''name'' (Name u)))]
              else []
          | _ \<Rightarrow> []) @
         (case GetUnitTypeProperty conn (Name u) ''Service'' ''TasksMax'' of
            Inr (VUint64 v) \<Rightarrow>
              if v \<noteq> MaxUint64
              then [metricPoint src ''unit_tasks_max'' (real (float64_of_nat (unat v))) now
                      (Some (setTag [] ''name'' (Name u)))]
              else []
          | _ \<Rightarrow> [])
       else []) units)
   \<and> (\<forall>u sent p.
         collectUnitTasksMetrics_unit src conn u now = Some sent \<and> p \<in> set sent \<and>
         GetUnitTypeProperty conn (Name u) ''Service'' ''TasksCurrent'' = Inr (VUint64 MaxUint64)
         \<longrightarrow> Metric p \<noteq> prefix src @ ''unit.tasks.current'')
   \<and> (\<forall>u sent p.
         collectUnitTasksMetrics_unit src conn u now = Some sent \<and> p \<in> set sent \<and>
         GetUnitTypeProperty conn (Name u) ''Service'' ''TasksMax'' = Inr (VUint64 MaxUint64)
         \<longrightarrow> Metric p \<noteq> prefix src @ ''unit.tasks.max'')"
proof (intro conjI allI impI)
  show "pts =
     concat (map (\<lambda>u.
       if HasSuffix (Name u) ''.service'' then
         (case GetUnitTypeProperty conn (Name u) ''Service'' ''TasksCurrent'' of
            Inr (VUint64 v) \<Rightarrow>
              if v \<noteq> MaxUint64
              then [metricPoint src ''unit_tasks_current'' (real (float64_of_nat (unat v))) now
                      (Some (setTag [] ''name'' (Name u)))]
              else []
          | _ \<Rightarrow> []) @
         (case GetUnitTypeProperty conn (Name u) ''Service'' ''TasksMax'' of
            Inr (VUint64 v) \<Rightarrow>
              if v \<noteq> MaxUint64
              then [metricPoint src ''unit_tasks_max'' (real (float64_of_nat (unat v))) now
                      (Some (setTag [] ''name'' (Name u)))]
              else []
          | _ \<Rightarrow> [])
       else []) units)"
    using assms
  proof (induction units arbitrary: pts)
    case Nil
    then show ?case by simp
  next
    case (Cons u units)
    from collectUnitTasksMetrics_Cons [OF Cons.prems] obtain sent rest where
      sent: "collectUnitTasksMetrics_unit src conn u now = Some sent"
      and rest: "collectUnitTasksMetrics src conn units now = Some rest"
      and pts: "pts = sent @ rest"
      by blast
    show ?case
      unfolding pts using tasks_unit_eq [OF sent] Cons.IH [OF rest]
      by (simp only: list.map concat.simps)
  qed
next
  fix u sent p
  assume a: "collectUnitTasksMetrics_unit src conn u now = Some sent \<and> p \<in> set sent \<and>
         GetUnitTypeProperty conn (Name u) ''Service'' ''TasksCurrent'' = Inr (VUint64 MaxUint64)"
  show "Metric p \<noteq> prefix src @ ''unit.tasks.current''"
  proof
    assume "Metric p = prefix src @ ''unit.tasks.current''"
    with a tasks_unit_current_only_if [of src conn u now sent p] show False by auto
  qed
next
  fix u sent p
  assume a: "collectUnitTasksMetrics_unit src conn u now = Some sent \<and> p \<in> set sent \<and>
         GetUnitTypeProperty conn (Name u) ''Service'' ''TasksMax'' = Inr (VUint64 MaxUint64)"
  show "Metric p \<noteq> prefix src @ ''unit.tasks.max''"
  proof
    assume "Metric p = prefix src @ ''unit.tasks.max''"
    with a tasks_unit_max_only_if [of src conn u now sent p] show False by auto
  qed
qed

theorem task_points_never_for_MaxUint64_witness:
  "GetUnitTypeProperty example_conn (Name example_service) ''Service'' ''TasksMax'' =
     Inr (VUint64 MaxUint64)
   \<and> collectUnitTasksMetrics example_source example_conn [example_service, example_timer] 0 =
       Some [metricPoint example_source ''unit_tasks_current'' 3 0
               (Some [(''name'', ''a.service'')])]
   \<and> concat (map (\<lambda>u.
       if HasSuffix (Name u) ''.service'' then
         (case GetUnitTypeProperty example_conn (Name u) ''Service'' ''TasksCurrent'' of
            Inr (VUint64 v) \<Rightarrow>
              if v \<noteq> MaxUint64
              then [metricPoint example_source ''unit_tasks_current''
                      (real (float64_of_nat (unat v))) 0 (Some (setTag [] ''name'' (Name u)))]
              else []
          | _ \<Rightarrow> []) @
         (case GetUnitTypeProperty example_conn (Name u) ''Service'' ''TasksMax'' of
            Inr (VUint64 v) \<Rightarrow>
              if v \<noteq> MaxUint64
              then [metricPoint example_source ''unit_tasks_max''
                      (real (float64_of_nat (unat v))) 0 (Some (setTag [] ''name'' (Name u)))]
              else []
          | _ \<Rightarrow> [])
       else []) [example_service, example_timer]) =
     [metricPoint example_source ''unit_tasks_current'' 3 0 (Some [(''name'', ''a.service'')])]"
proof -
  have f: "float64_of_nat 3 = 3"
    by (simp add: float64_of_nat_def bit_length.simps round_half_even_def)
  have m: "(3 :: 64 word) \<noteq> MaxUint64"
    by (simp add: MaxUint64_def)
  have r: "collectUnitTasksMetrics example_source example_conn [example_service, example_timer] 0 =
       Some [metricPoint example_source ''unit_tasks_current'' 3 0
               (Some [(''name'', ''a.service'')])]"
    by (simp add: collectUnitTasksMetrics_unit_def tasksCurrent_points_def tasksMax_points_def
          example_conn_def example_type_property_def example_service_def example_timer_def
          example_HasSuffix f m setTag_def)
  have t: "GetUnitTypeProperty example_conn (Name example_service) ''Service'' ''TasksMax'' =
     Inr (VUint64 MaxUint64)"
    by (simp add: example_conn_def example_type_property_def example_service_def)
  from task_points_never_for_MaxUint64 [OF r, THEN conjunct1] r t
  show ?thesis by simp
qed

subsection \<open>Summary\<close>

lemma map_read_assign:
  "map_read (map_assign m k v) s = (if s = k then v else map_read m s)"
  by (induction m) (auto simp: map_read_def)

lemma map_fst_assign:
  "map fst (map_assign m k v) = (if k \<in> set (map fst m) then map fst m else map fst m @ [k])"
  by (induction m) (force split: if_splits)+

lemma keys_assign: "fst ` set (map_assign m k v) = insert k (fst ` set m)"
proof -
  have "set (map fst (map_assign m k v)) = insert k (set (map fst m))"
    unfolding map_fst_assign by auto
  then show ?thesis by simp
qed

lemma distinct_assign:
  "distinct (map fst m) \<Longrightarrow> distinct (map fst (map_assign m k v))"
  unfolding map_fst_assign by auto

lemma sum_assign:
  "sum_list (map snd (map_assign m k v)) = sum_list (map snd m) - map_read m k + v"
  by (induction m) (auto simp: map_read_def)

lemma nonneg_assign:
  "\<forall>(k, c) \<in> set m. 0 \<le> c \<Longrightarrow> 0 \<le> v \<Longrightarrow> \<forall>(k, c) \<in> set (map_assign m k' v). 0 \<le> c"
  by (induction m) (auto split: if_splits)

lemma map_read_le_sum:
  "\<forall>(k, c) \<in> set m. 0 \<le> c \<Longrightarrow> map_read m s \<le> sum_list (map snd m)"
proof (induction m)
  case Nil
  then show ?case by (simp add: map_read_def)
next
  case (Cons kc m)
  obtain k c where kc: "kc = (k, c)" by (cases kc)
  have "0 \<le> sum_list (map snd m)"
    using Cons.prems by (intro sum_list_nonneg) auto
  moreover have "map_read m s \<le> sum_list (map snd m)"
    using Cons by simp
  moreover have "0 \<le> c" using Cons.prems kc by simp
  ultimately show ?case
    by (auto simp: kc map_read_def)
qed

lemma map_read_nonneg:
  "\<forall>(k, c) \<in> set m. 0 \<le> c \<Longrightarrow> 0 \<le> map_read m s"
  by (induction m) (auto simp: map_read_def)

lemma summarize_count_keys:
  "fst ` set (summarize_count m units) = fst ` set m \<union> ActiveState ` set units"
  by (induction units arbitrary: m) (auto simp: keys_assign)

lemma summarize_count_distinct:
  "distinct (map fst m) \<Longrightarrow> distinct (map fst (summarize_count m units))"
  by (induction units arbitrary: m) (auto simp: distinct_assign)

lemma summarize_count_exact:
  assumes "\<forall>(k, c) \<in> set m. 0 \<le> c"
      and "sum_list (map snd m) + real (length units) \<le> 2 ^ 53"
  shows "sum_list (map snd (summarize_count m units)) = sum_list (map snd m) + real (length units)
       \<and> (\<forall>s. map_read (summarize_count m units) s =
                map_read m s + real (length (filter (\<lambda>u. ActiveState u = s) units)))"
  using assms
proof (induction units arbitrary: m)
  case Nil
  then show ?case by simp
next
  case (Cons u units)
  let ?k = "ActiveState u"
  let ?c = "map_read m ?k"
  have c_le: "?c \<le> sum_list (map snd m)"
    by (rule map_read_le_sum [OF Cons.prems(1)])
  have c_lt: "?c < 2 ^ 53"
    using c_le Cons.prems(2) by simp
  then have inc: "float64_inc ?c = ?c + 1"
    by (simp add: float64_inc_def)
  let ?m' = "map_assign m ?k (?c + 1)"
  have nn: "\<forall>(k, c) \<in> set ?m'. 0 \<le> c"
    using nonneg_assign [OF Cons.prems(1), of "?c + 1" ?k] map_read_nonneg [OF Cons.prems(1), of ?k]
    by simp
  have sm: "sum_list (map snd ?m') = sum_list (map snd m) + 1"
    by (simp add: sum_assign)
  have bound: "sum_list (map snd ?m') + real (length units) \<le> 2 ^ 53"
    using Cons.prems(2) sm by simp
  from Cons.IH [OF nn bound] sm
  show ?case
    by (auto simp: inc map_read_assign)
qed

lemma summarize_init_known:
  "summarize_init [] unitStatesName =
     [(''active'', 0), (''activating'', 0), (''deactivating'', 0), (''inactive'', 0), (''failed'', 0)]"
  by (simp add: unitStatesName_def)

lemma map_of_read:
  "s \<in> fst ` set m \<Longrightarrow> map_of m s = Some (map_read m s)"
  by (cases "map_of m s") (auto simp: map_read_def map_of_eq_None_iff)

text \<open>
  C4: for a snapshot of at most \<open>2^53\<close> units (the range in which the \<open>float64\<close>
  counters are exact; no larger snapshot fits in memory), the map returned by the
  Summarizer has one entry for each of the five known active-state names and one for
  each other active state that occurs in the snapshot, and no others; every count is
  the number of units in that state, so at least zero; and the counts add up to the
  number of units in the snapshot.
\<close>

theorem summarizeUnits_counts:
  assumes "length units \<le> 2 ^ 53"
  shows "fst ` set (summarizeUnits units) = set unitStatesName \<union> ActiveState ` set units
       \<and> distinct (map fst (summarizeUnits units))
       \<and> (\<forall>s \<in> set unitStatesName. \<exists>c \<ge> 0. map_of (summarizeUnits units) s = Some c)
       \<and> (\<forall>s \<in> fst ` set (summarizeUnits units).
             map_of (summarizeUnits units) s =
               Some (real (length (filter (\<lambda>u. ActiveState u = s) units))))
       \<and> sum_list (map snd (summarizeUnits units)) = real (length units)"
proof -
  let ?m0 = "summarize_init [] unitStatesName"
  have nn: "\<forall>(k, c) \<in> set ?m0. 0 \<le> c"
    by (simp add: summarize_init_known)
  have s0: "sum_list (map snd ?m0) = 0"
    by (simp add: summarize_init_known)
  have r0: "map_read ?m0 s = 0" for s
    by (simp add: summarize_init_known map_read_def)
  have k0: "fst ` set ?m0 = set unitStatesName"
    by (simp add: summarize_init_known unitStatesName_def)
  have d0: "distinct (map fst ?m0)"
    by (simp add: summarize_init_known)
  have "real (length units) \<le> real (2 ^ 53)"
    using assms by (simp only: of_nat_le_iff)
  then have "real (length units) \<le> 2 ^ 53"
    by simp
  then have b: "sum_list (map snd ?m0) + real (length units) \<le> 2 ^ 53"
    using s0 by simp
  note ex = summarize_count_exact [OF nn b]
  have keys: "fst ` set (summarizeUnits units) = set unitStatesName \<union> ActiveState ` set units"
    by (simp add: summarizeUnits_def summarize_count_keys k0)
  have rd: "map_read (summarizeUnits units) s =
              real (length (filter (\<lambda>u. ActiveState u = s) units))" for s
    using ex r0 by (simp add: summarizeUnits_def)
  have mo: "map_of (summarizeUnits units) s =
              Some (real (length (filter (\<lambda>u. ActiveState u = s) units)))"
    if "s \<in> fst ` set (summarizeUnits units)" for s
    using map_of_read [OF that] rd by simp
  have "\<exists>c \<ge> 0. map_of (summarizeUnits units) s = Some c" if "s \<in> set unitStatesName" for s
  proof -
    from that keys have "s \<in> fst ` set (summarizeUnits units)" by blast
    from mo [OF this] show ?thesis by simp
  qed
  moreover have "distinct (map fst (summarizeUnits units))"
    by (simp add: summarizeUnits_def summarize_count_distinct d0)
  moreover have "sum_list (map snd (summarizeUnits units)) = real (length units)"
    using ex s0 by (simp add: summarizeUnits_def)
  ultimately show ?thesis
    using keys mo by blast
qed

theorem summarizeUnits_counts_witness:
  "length [example_service, example_reloading, example_socket] \<le> (2::nat) ^ 53
   \<and> summarizeUnits [example_service, example_reloading, example_socket] =
       [(''active'', 2), (''activating'', 0), (''deactivating'', 0), (''inactive'', 0),
        (''failed'', 0), (''reloading'', 1)]
   \<and> sum_list (map snd (summarizeUnits [example_service, example_reloading, example_socket])) = 3"
proof -
  have l: "length [example_service, example_reloading, example_socket] \<le> (2::nat) ^ 53"
    by simp
  have "summarizeUnits [example_service, example_reloading, example_socket] =
       [(''active'', 2), (''activating'', 0), (''deactivating'', 0), (''inactive'', 0),
        (''failed'', 0), (''reloading'', 1)]"
    by (simp add: summarizeUnits_def summarize_init_known example_service_def
          example_reloading_def example_socket_def map_read_def float64_inc_def)
  with summarizeUnits_counts [OF l] l show ?thesis by simp
qed

subsection \<open>Scheduling and the shape of a completed scrape\<close>

lemma concat_nonempty: "concat (filter (\<lambda>q. q \<noteq> []) qs) = concat qs"
  by (induction qs) auto

lemma mset_concat_pop:
  "i < length live \<Longrightarrow> live ! i \<noteq> [] \<Longrightarrow>
   add_mset (hd (live ! i)) (mset (concat (live[i := tl (live ! i)]))) = mset (concat live)"
proof (induction live arbitrary: i)
  case Nil
  then show ?case by simp
next
  case (Cons q live)
  show ?case
  proof (cases i)
    case 0
    with Cons.prems show ?thesis by (cases q) auto
  next
    case (Suc j)
    with Cons show ?thesis by simp
  qed
qed

lemma mset_interleave: "mset (interleave sched qs) = mset (concat qs)"
proof (induction sched qs rule: interleave.induct)
  case (1 sched qs)
  define live where "live = filter (\<lambda>q. q \<noteq> []) qs"
  define i where "i = (case sched of [] \<Rightarrow> 0 | s # _ \<Rightarrow> s mod length live)"
  show ?case
  proof (cases "live = []")
    case True
    then have "concat qs = []"
      using concat_nonempty [of qs] by (simp add: live_def)
    moreover have "interleave sched qs = []"
      using True by (subst interleave.simps) (simp add: live_def)
    ultimately show ?thesis by simp
  next
    case False
    have i: "i < length live"
      using False by (auto simp: i_def split: list.splits)
    have "live ! i \<in> set live"
      using i by simp
    then have ne: "live ! i \<noteq> []"
      by (auto simp: live_def)
    have step: "interleave sched qs =
                  hd (live ! i) # interleave (tl sched) (live[i := tl (live ! i)])"
      using False unfolding live_def i_def by (subst interleave.simps) (simp add: Let_def)
    have "mset (interleave (tl sched) (live[i := tl (live ! i)])) =
            mset (concat (live[i := tl (live ! i)]))"
      using "1.IH" [OF live_def False i_def] .
    then have "mset (interleave sched qs) = mset (concat live)"
      using mset_concat_pop [OF i ne] by (simp add: step)
    then show ?thesis
      by (simp add: live_def concat_nonempty)
  qed
qed


lemma getAllUnits_eq: "getAllUnits conn = ListUnits conn"
  by (simp add: getAllUnits_def split: sum.splits)

lemma ScrapeMetrics_completed:
  assumes "dbus_New env = Inr conn" and "ListUnits conn = Inr allUnits"
      and "ScrapeMetrics src env cnt = Some r"
  shows "\<exists>status startTimes tasks timers sockets.
           collectUnitStatusMetrics src conn (filterUnits src allUnits) (time_Now_Unix env)
             = Some status
         \<and> (if collectStartTimeMetrics src
              then collectUnitStartTimeMetrics src conn (filterUnits src allUnits) (time_Now_Unix env)
              else Some []) = Some startTimes
         \<and> (if collectTaskMetrics src
              then collectUnitTasksMetrics src conn (filterUnits src allUnits) (time_Now_Unix env)
              else Some []) = Some tasks
         \<and> collectTimers src conn (filterUnits src allUnits) (time_Now_Unix env) = Some timers
         \<and> collectSockets src conn (filterUnits src allUnits) (time_Now_Unix env) = Some sockets
         \<and> r = ((Some \<lparr> BatchTimestamp = time_Now env,
                          MetricPoints =
                            filter (filter_keeps src)
                              (collectSummaryMetrics src (range_sched env) (summarizeUnits allUnits)
                                 (time_Now_Unix env) @
                               interleave (chan_sched env)
                                 [status, startTimes, tasks, timers, sockets,
                                  fst (collectSystemState src conn (time_Now_Unix env))]) \<rparr>,
                    snd (collectSystemState src conn (time_Now_Unix env))),
                   cnt + of_nat (length (filter (\<lambda>p. \<not> filter_keeps src p)
                              (collectSummaryMetrics src (range_sched env) (summarizeUnits allUnits)
                                 (time_Now_Unix env) @
                               interleave (chan_sched env)
                                 [status, startTimes, tasks, timers, sockets,
                                  fst (collectSystemState src conn (time_Now_Unix env))]))))"
  using assms(3)
  unfolding ScrapeMetrics_def assms(1) getAllUnits_eq assms(2) Let_def sum.case
  by (auto simp: bind_Some_iff gather_loop_eq case_prod_beta)


subsection \<open>The collector loops\<close>

lemma collectUnitStatusMetrics_loop:
  "collectUnitStatusMetrics src conn units now =
     for_units (\<lambda>u. collectUnitStatusMetrics_unit src conn u now) units"
  by (induction units) simp_all

lemma collectUnitStartTimeMetrics_loop:
  "collectUnitStartTimeMetrics src conn units now =
     for_units (\<lambda>u. collectUnitStartTimeMetrics_unit src conn u now) units"
  by (induction units) simp_all

lemma collectUnitTasksMetrics_loop:
  "collectUnitTasksMetrics src conn units now =
     for_units (\<lambda>u. collectUnitTasksMetrics_unit src conn u now) units"
  by (induction units) simp_all

lemma collectTimers_loop:
  "collectTimers src conn units now = for_units (\<lambda>u. collectTimers_unit src conn u now) units"
  by (induction units) simp_all

lemma collectSockets_loop:
  "collectSockets src conn units now = for_units (\<lambda>u. collectSockets_unit src conn u now) units"
  by (induction units) simp_all

lemma for_units_Some:
  "for_units body units = Some pts \<Longrightarrow>
   pts = concat (map (\<lambda>u. the (body u)) units) \<and> (\<forall>u \<in> set units. body u \<noteq> None)"
  by (induction units arbitrary: pts) (auto simp: bind_Some_iff)


lemma for_units_all:
  assumes "for_units body units = Some pts"
      and "\<And>u a p. u \<in> set units \<Longrightarrow> body u = Some a \<Longrightarrow> p \<in> set a \<Longrightarrow> Q p"
  shows "\<forall>p \<in> set pts. Q p"
proof -
  from for_units_Some [OF assms(1)] have
    pts: "pts = concat (map (\<lambda>u. the (body u)) units)" and ok: "\<forall>u \<in> set units. body u \<noteq> None"
    by simp_all
  show ?thesis
    unfolding pts using ok assms(2) by fastforce
qed



subsection \<open>The loop bodies\<close>


















subsection \<open>Metric names\<close>

lemma interleave_no_schedule: "interleave [] qs = concat qs"
proof (induction "length (concat qs)" arbitrary: qs rule: less_induct)
  case less
  define live where "live = filter (\<lambda>q. q \<noteq> []) qs"
  show ?case
  proof (cases "live = []")
    case True
    then have "concat qs = []"
      using concat_nonempty [of qs] by (simp add: live_def)
    moreover have "interleave [] qs = []"
      using True unfolding live_def by (subst interleave.simps) simp
    ultimately show ?thesis by simp
  next
    case False
    then obtain q rest where live: "live = q # rest"
      by (cases live) auto
    have "q \<in> set live" using live by simp
    then have q: "q \<noteq> []" by (auto simp: live_def)
    have step: "interleave [] qs = hd q # interleave [] (tl q # rest)"
      using live unfolding live_def by (subst interleave.simps) (simp add: Let_def)
    have len: "length (concat qs) = length (concat live)"
      by (simp add: live_def length_concat_nonempty)
    have "length (concat (tl q # rest)) < length (concat qs)"
      using q by (cases q) (auto simp: len live)
    from less [OF this] have "interleave [] (tl q # rest) = concat (tl q # rest)" .
    then have "interleave [] qs = concat live"
      using q by (cases q) (auto simp: step live)
    then show ?thesis
      by (simp add: live_def concat_nonempty)
  qed
qed

lemma range_map_no_schedule: "range_map [] m = m"
proof -
  have "concat (map (\<lambda>kv. [kv]) m) = m"
    by (induction m) auto
  then show ?thesis
    by (simp add: range_map_def interleave_no_schedule)
qed


lemma named_metricPoint:
  "token \<in> set category_tokens \<Longrightarrow> named_by_convention src (metricPoint src token val ts tgs)"
  by (simp add: named_by_convention_def metricPoint_fields)

lemma named_summary:
  "p \<in> set (collectSummaryMetrics src sched summary now) \<Longrightarrow> named_by_convention src p"
  by (auto simp: collectSummaryMetrics_def intro!: named_metricPoint simp: category_tokens_def)

lemma named_systemState:
  "p \<in> set (fst (collectSystemState src conn now)) \<Longrightarrow> named_by_convention src p"
  by (auto simp: collectSystemState_def intro!: named_metricPoint simp: category_tokens_def
           split: sum.splits)

lemma status_unit_named:
  assumes "collectUnitStatusMetrics_unit src conn u now = Some a" "p \<in> set a"
  shows "named_by_convention src p"
proof -
  from assms(1) obtain ty rs where
    rs: "unit_restart_points src conn u now = Some rs"
    and a: "a = unit_state_points src u ty now @ rs"
    by (auto simp: collectUnitStatusMetrics_unit_def bind_Some_iff)
  have "\<forall>p \<in> set (unit_state_points src u ty now). named_by_convention src p"
    by (auto simp: unit_state_points_def intro!: named_metricPoint simp: category_tokens_def)
  moreover have "\<forall>p \<in> set rs. named_by_convention src p"
    using rs
    by (auto simp: unit_restart_points_def bind_Some_iff category_tokens_def
             intro!: named_metricPoint split: if_splits sum.splits)
  ultimately show ?thesis
    using assms(2) a by auto
qed

lemma startTime_unit_named:
  assumes "collectUnitStartTimeMetrics_unit src conn u now = Some a" "p \<in> set a"
  shows "named_by_convention src p"
  using assms
  by (auto simp: collectUnitStartTimeMetrics_unit_def Let_def bind_Some_iff category_tokens_def
           intro!: named_metricPoint split: if_splits sum.splits)

lemma tasks_unit_named:
  assumes "collectUnitTasksMetrics_unit src conn u now = Some a" "p \<in> set a"
  shows "named_by_convention src p"
  using assms
  by (auto simp: collectUnitTasksMetrics_unit_def tasksCurrent_points_def tasksMax_points_def
        bind_Some_iff category_tokens_def intro!: named_metricPoint split: if_splits sum.splits)

lemma timers_unit_named:
  assumes "collectTimers_unit src conn u now = Some a" "p \<in> set a"
  shows "named_by_convention src p"
  using assms
  by (auto simp: collectTimers_unit_def bind_Some_iff category_tokens_def
           intro!: named_metricPoint split: if_splits sum.splits)

lemma sockets_unit_named:
  assumes "collectSockets_unit src conn u now = Some a" "p \<in> set a"
  shows "named_by_convention src p"
  using assms
  by (cases "GetUnitTypeProperty conn (Name u) ''Socket'' ''NAccepted''";
      cases "GetUnitTypeProperty conn (Name u) ''Socket'' ''NConnections''";
      cases "GetUnitTypeProperty conn (Name u) ''Socket'' ''NRefused''")
     (auto simp: collectSockets_unit_def Let_def bind_Some_iff category_tokens_def
           intro!: named_metricPoint split: if_splits)

lemma set_interleave: "set (interleave sched qs) = \<Union> (set ` set qs)"
proof -
  have "set (interleave sched qs) = set_mset (mset (interleave sched qs))"
    by simp
  also have "\<dots> = set (concat qs)"
    by (simp only: mset_interleave set_mset_mset)
  finally show ?thesis by simp
qed

lemma scrape_points_named:
  assumes "ScrapeMetrics src env cnt = Some ((Some batch, err), cnt')"
  shows "\<forall>p \<in> set (MetricPoints batch). named_by_convention src p"
proof (cases "dbus_New env")
  case (Inl e)
  with assms show ?thesis by (simp add: ScrapeMetrics_def)
next
  case (Inr conn)
  show ?thesis
  proof (cases "ListUnits conn")
    case (Inl e)
    with assms Inr show ?thesis by (simp add: ScrapeMetrics_def getAllUnits_eq)
  next
    case units: (Inr allUnits)
    let ?now = "time_Now_Unix env"
    let ?units = "filterUnits src allUnits"
    from ScrapeMetrics_completed [OF Inr units assms] obtain status startTimes tasks timers sockets
      where st: "collectUnitStatusMetrics src conn ?units ?now = Some status"
        and ti: "(if collectStartTimeMetrics src
                  then collectUnitStartTimeMetrics src conn ?units ?now else Some [])
                 = Some startTimes"
        and ta: "(if collectTaskMetrics src
                  then collectUnitTasksMetrics src conn ?units ?now else Some []) = Some tasks"
        and tm: "collectTimers src conn ?units ?now = Some timers"
        and so: "collectSockets src conn ?units ?now = Some sockets"
        and pts: "MetricPoints batch =
                    filter (filter_keeps src)
                      (collectSummaryMetrics src (range_sched env) (summarizeUnits allUnits) ?now @
                       interleave (chan_sched env)
                         [status, startTimes, tasks, timers, sockets,
                          fst (collectSystemState src conn ?now)])"
      by auto
    have 1: "\<forall>p \<in> set status. named_by_convention src p"
      using st unfolding collectUnitStatusMetrics_loop
      by (rule for_units_all) (rule status_unit_named)
    have 2: "\<forall>p \<in> set startTimes. named_by_convention src p"
    proof (cases "collectStartTimeMetrics src")
      case True
      with ti have "for_units (\<lambda>u. collectUnitStartTimeMetrics_unit src conn u ?now) ?units
                      = Some startTimes"
        by (simp add: collectUnitStartTimeMetrics_loop)
      then show ?thesis
        by (rule for_units_all) (rule startTime_unit_named)
    next
      case False
      with ti show ?thesis by auto
    qed
    have 3: "\<forall>p \<in> set tasks. named_by_convention src p"
    proof (cases "collectTaskMetrics src")
      case True
      with ta have "for_units (\<lambda>u. collectUnitTasksMetrics_unit src conn u ?now) ?units
                      = Some tasks"
        by (simp add: collectUnitTasksMetrics_loop)
      then show ?thesis
        by (rule for_units_all) (rule tasks_unit_named)
    next
      case False
      with ta show ?thesis by auto
    qed
    have 4: "\<forall>p \<in> set timers. named_by_convention src p"
      using tm unfolding collectTimers_loop
      by (rule for_units_all) (rule timers_unit_named)
    have 5: "\<forall>p \<in> set sockets. named_by_convention src p"
      using so unfolding collectSockets_loop
      by (rule for_units_all) (rule sockets_unit_named)
    show ?thesis
      unfolding pts using 1 2 3 4 5 named_summary named_systemState
      by (auto simp: set_interleave)
  qed
qed


lemma example_scrape:
  "\<exists>batch.
     ScrapeMetrics example_source example_env 0 =
       Some ((Some batch, Some ''couldn't get system state: no reply''), 0)
     \<and> map Metric (MetricPoints batch) =
       [''kubernetes.systemd.units'',
        ''kubernetes.systemd.units'',
        ''kubernetes.systemd.units'',
        ''kubernetes.systemd.units'',
        ''kubernetes.systemd.units'',
        ''kubernetes.systemd.unit.state'',
        ''kubernetes.systemd.unit.state'',
        ''kubernetes.systemd.unit.state'',
        ''kubernetes.systemd.unit.state'',
        ''kubernetes.systemd.unit.state'',
        ''kubernetes.systemd.unit.state'',
        ''kubernetes.systemd.unit.state'',
        ''kubernetes.systemd.unit.state'',
        ''kubernetes.systemd.unit.state'',
        ''kubernetes.systemd.unit.state'',
        ''kubernetes.systemd.unit.start.time.seconds'',
        ''kubernetes.systemd.unit.start.time.seconds'',
        ''kubernetes.systemd.unit.tasks.current'']"
  by (simp add: ScrapeMetrics_def example_env_def example_conn_def getAllUnits_def
        interleave_no_schedule range_map_no_schedule gather_loop_eq
        collectSummaryMetrics_def summarizeUnits_def summarize_init_known
        filterUnits_def unit_selected_def filter_keeps_def
        collectUnitStatusMetrics_unit_def unit_serviceType_def unit_restart_points_def
        unit_state_points_def unitStatesName_def
        collectUnitStartTimeMetrics_unit_def collectUnitTasksMetrics_unit_def
        tasksCurrent_points_def tasksMax_points_def collectTimers_unit_def
        collectSockets_unit_def collectSystemState_def
        example_source_def example_service_def example_timer_def
        example_type_property_def example_unit_property_def example_manager_failing_def
        example_HasSuffix metricPoint_fields dotted_def MaxUint64_def Let_def)

subsection \<open>The error boundary of a scrape\<close>
























subsection \<open>The naming convention\<close>

text \<open>
  C8: the metric name of a point built by \<open>metricPoint\<close> is the configured prefix
  followed by the internal category token with every underscore replaced by a dot;
  and every point of a batch that \<open>ScrapeMetrics\<close> returns has such a name, for one of
  the category tokens of the program. With the default prefix the token \<open>unit_state\<close>
  gives \<open>kubernetes.systemd.unit.state\<close>.
\<close>

theorem metric_names_follow_convention:
  "Metric (metricPoint src token val ts tgs) = prefix src @ dotted token
   \<and> (ScrapeMetrics src env cnt = Some ((Some batch, err), cnt') \<longrightarrow>
        (\<forall>p \<in> set (MetricPoints batch).
           \<exists>token \<in> set category_tokens. Metric p = prefix src @ dotted token))"
proof (intro conjI impI)
  show "Metric (metricPoint src token val ts tgs) = prefix src @ dotted token"
    by (simp add: metricPoint_fields)
next
  assume "ScrapeMetrics src env cnt = Some ((Some batch, err), cnt')"
  from scrape_points_named [OF this]
  show "\<forall>p \<in> set (MetricPoints batch).
           \<exists>token \<in> set category_tokens. Metric p = prefix src @ dotted token"
    unfolding named_by_convention_def by (simp only: set_map image_iff)
qed

theorem metric_names_follow_convention_witness:
  "Metric (metricPoint example_source ''unit_state'' 1 100 None) = ''kubernetes.systemd.unit.state''
   \<and> map_option (snd \<circ> fst) (ScrapeMetrics example_source example_env 0) =
       Some (Some ''couldn't get system state: no reply'')
   \<and> list_all (\<lambda>p. \<exists>token \<in> set category_tokens.
                      Metric p = ''kubernetes.systemd.'' @ dotted token)
       (MetricPoints (the (fst (fst (the (ScrapeMetrics example_source example_env 0))))))"
proof -
  from example_scrape obtain batch where
    r: "ScrapeMetrics example_source example_env 0 =
          Some ((Some batch, Some ''couldn't get system state: no reply''), 0)"
    by blast
  have p: "prefix example_source = ''kubernetes.systemd.''"
    by (simp add: example_source_def)
  from metric_names_follow_convention
         [of example_source "''unit_state''" 1 100 None example_env 0 batch
             "Some ''couldn't get system state: no reply''" 0] r
  show ?thesis
    by (simp add: p dotted_def list_all_iff)
qed

end
